theory Spec2Isabelle
  imports Main
begin

section \<open>The authentication controller of podlove\_backend\<close>

text \<open>
  A shallow embedding of \<^verbatim>\<open>controllers/authController\<close> (the handlers
  \<^verbatim>\<open>register\<close>, \<^verbatim>\<open>activate\<close>, \<^verbatim>\<open>login\<close>,
  \<^verbatim>\<open>signInWithGoogle\<close>, \<^verbatim>\<open>resetPassword\<close>, \<^verbatim>\<open>resendOTP\<close>
  and \<^verbatim>\<open>changePassword\<close>). An Express handler reads the request body, talks to
  the document store, the mail and SMS sinks and bcrypt, and ends by sending a JSON response
  or by calling \<^verbatim>\<open>next(error)\<close>. Here a handler is a function from the
  environment of the request, the request's fields and the world before the request to the
  world after it and the handler's outcome.
\<close>

subsection \<open>Documents\<close>

text \<open>
  Modelled from the spec: the schemas \<^verbatim>\<open>models/authModel\<close> and
  \<^verbatim>\<open>models/userModel\<close> are not under src; the two document types have the fields
  of the spec's data model, under the names the controller reads and writes. A field a
  document may lack (\<^verbatim>\<open>undefined\<close> or \<^verbatim>\<open>null\<close>) is an option;
  timestamps are milliseconds since the epoch, as \<^verbatim>\<open>Date.now()\<close> counts them.
  \<open>auth_id\<close> and \<open>user_id\<close> are the documents' \<^verbatim>\<open>_id\<close>,
  \<open>user_auth\<close> is the user's reference \<^verbatim>\<open>auth\<close>.
\<close>

record Auth =
  auth_id :: nat
  email :: "string option"
  password :: "string option"
  googleId :: "string option"
  isVerified :: bool
  isBlocked :: bool
  verificationOTP :: "string option"
  verificationOTPExpiredAt :: "int option"
  recoveryOTP :: "string option"
  recoveryOTPExpiredAt :: "int option"

record User =
  user_id :: nat
  user_auth :: nat
  name :: "string option"
  phoneNumber :: "string option"
  avatar :: "string option"

datatype message = Email "string option" string | SMS "string option" string

text \<open>The world a request runs in: both collections, and what the sinks have delivered.\<close>

record world =
  auths :: "Auth list"
  users :: "User list"
  outbox :: "message list"

subsection \<open>Outcomes\<close>

datatype StatusCode =
  OK | CREATED | BAD_REQUEST | UNAUTHORIZED | FORBIDDEN | NOT_FOUND | CONFLICT
  | INTERNAL_SERVER_ERROR

text \<open>The calls of a handler that can throw or reject.\<close>

datatype io =
  AuthFindOne | AuthFindById | AuthSave | AuthCreate | UserFindOne | UserCreate
  | StartSession | CommitTransaction | AbortTransaction | SendEmail | SendSMS
  | BcryptHash | BcryptCompare | ReadProperty

text \<open>
  An error is either made by \<^verbatim>\<open>createError(status, message)\<close> or thrown by one
  of the calls above (a store failure, bcrypt's argument check, a \<^verbatim>\<open>TypeError\<close>);
  the latter carries no status.
\<close>

datatype error = HttpError StatusCode string | Thrown io

text \<open>
  A signed token: the identity's id, the secret it is signed with and its lifetime.
\<close>

datatype token = Token nat string string

text \<open>
  The \<^verbatim>\<open>data\<close> member of the response envelope, one constructor per shape. A
  user in a response is the User document; \<^verbatim>\<open>populate\<close> only changes how its
  reference to the Auth is rendered.
\<close>

datatype payload =
  Empty
  | IsVerified bool
  | Verification bool "string option"
  | Recovery "string option"
  | Activated token Auth User
  | LoggedIn token token Auth "User option"

text \<open>
  How a handler ends: \<^verbatim>\<open>res.status(s).json({success, message, data})\<close>,
  \<^verbatim>\<open>next(error)\<close>, the rejection of the handler's own promise (an exception no
  \<^verbatim>\<open>to\<close> or \<^verbatim>\<open>try\<close> catches: neither a response nor
  \<^verbatim>\<open>next\<close>), or falling off the end of the function.
\<close>

datatype outcome =
  Json StatusCode bool string payload
  | Next error
  | Rejected error
  | NoResponse

subsection \<open>The environment of one request\<close>

text \<open>
  Modelled from the spec: \<^verbatim>\<open>utils/generateOTP\<close> and the Auth schema are not
  under src. The code \<^verbatim>\<open>generateOTP()\<close> returns in this request is a parameter,
  and so are the values the schema gives to \<^verbatim>\<open>isVerified\<close> and
  \<^verbatim>\<open>isBlocked\<close> when a create call leaves them out; every other omitted field
  is absent. The rest is what the handler reads from outside: the clock, the two secrets of
  \<^verbatim>\<open>process.env\<close>, the identifiers the driver gives to new documents, bcrypt
  (\<open>hash_of\<close>, \<open>matches\<close>), and which calls fail in this request.
\<close>

record env =
  now :: int
  generateOTP :: string
  JWT_ACCESS_SECRET :: "string option"
  JWT_REFRESH_SECRET :: "string option"
  fresh_auth_id :: nat
  fresh_user_id :: nat
  default_isVerified :: bool
  default_isBlocked :: bool
  hash_of :: "string \<Rightarrow> string"
  matches :: "string \<Rightarrow> string \<Rightarrow> bool"
  fault :: "io \<Rightarrow> bool"

text \<open>JavaScript's \<^verbatim>\<open>!s\<close> on a string that may be missing.\<close>

definition falsy :: "string option \<Rightarrow> bool" where
  "falsy s = (case s of None \<Rightarrow> True | Some x \<Rightarrow> x = [])"

text \<open>
  \<^verbatim>\<open>bcrypt.hash(data, 10)\<close> and \<^verbatim>\<open>bcrypt.compare(data, hash)\<close>: the
  library rejects when an argument is \<^verbatim>\<open>null\<close> or \<^verbatim>\<open>undefined\<close>
  (``data and salt arguments required'', ``data and hash arguments required'').
\<close>

definition bcrypt_hash :: "env \<Rightarrow> string option \<Rightarrow> error + string" where
  "bcrypt_hash e pw = (case pw of None \<Rightarrow> Inl (Thrown BcryptHash) | Some p \<Rightarrow> Inr (hash_of e p))"

definition bcrypt_compare :: "env \<Rightarrow> string option \<Rightarrow> string option \<Rightarrow> error + bool" where
  "bcrypt_compare e pw h =
     (case pw of
        None \<Rightarrow> Inl (Thrown BcryptCompare)
      | Some p \<Rightarrow> (case h of None \<Rightarrow> Inl (Thrown BcryptCompare) | Some s \<Rightarrow> Inr (matches e p s)))"

text \<open>
  Modelled from the spec: \<^verbatim>\<open>generateToken\<close> of \<^verbatim>\<open>utils/jwt\<close> is not
  under src; it mints a signed, time-bound token that binds the identity's id.
\<close>

definition generateToken :: "nat \<Rightarrow> string \<Rightarrow> string \<Rightarrow> token" where
  "generateToken i secret expiresIn = Token i secret expiresIn"

subsection \<open>The store and the sinks\<close>

text \<open>
  \<^verbatim>\<open>findOne(filter)\<close> gives the first document the filter matches, in insertion
  order; a filter on a missing request field matches the documents that lack the field.
\<close>

definition Auth_findOne :: "env \<Rightarrow> (Auth \<Rightarrow> bool) \<Rightarrow> world \<Rightarrow> error + Auth option" where
  "Auth_findOne e q w = (if fault e AuthFindOne then Inl (Thrown AuthFindOne) else Inr (find q (auths w)))"

definition Auth_findById :: "env \<Rightarrow> nat \<Rightarrow> world \<Rightarrow> error + Auth option" where
  "Auth_findById e i w =
     (if fault e AuthFindById then Inl (Thrown AuthFindById)
      else Inr (find (\<lambda>d. auth_id d = i) (auths w)))"

definition User_findOne :: "env \<Rightarrow> (User \<Rightarrow> bool) \<Rightarrow> world \<Rightarrow> error + User option" where
  "User_findOne e q w = (if fault e UserFindOne then Inl (Thrown UserFindOne) else Inr (find q (users w)))"

text \<open>
  \<^verbatim>\<open>doc.save()\<close> writes the paths the handler has modified to the stored document
  with the same \<^verbatim>\<open>_id\<close>; \<open>upd\<close> is that assignment.
\<close>

definition Auth_save :: "env \<Rightarrow> nat \<Rightarrow> (Auth \<Rightarrow> Auth) \<Rightarrow> world \<Rightarrow> error + world" where
  "Auth_save e i upd w =
     (if fault e AuthSave then Inl (Thrown AuthSave)
      else Inr (w\<lparr>auths := map (\<lambda>d. if auth_id d = i then upd d else d) (auths w)\<rparr>))"

definition Auth_create :: "env \<Rightarrow> Auth \<Rightarrow> world \<Rightarrow> error + world" where
  "Auth_create e doc w =
     (if fault e AuthCreate then Inl (Thrown AuthCreate) else Inr (w\<lparr>auths := auths w @ [doc]\<rparr>))"

definition User_create :: "env \<Rightarrow> User \<Rightarrow> world \<Rightarrow> error + world" where
  "User_create e doc w =
     (if fault e UserCreate then Inl (Thrown UserCreate) else Inr (w\<lparr>users := users w @ [doc]\<rparr>))"

text \<open>
  Modelled from the spec: \<^verbatim>\<open>utils/sendEmail\<close> and \<^verbatim>\<open>utils/sendSMS\<close>
  are not under src; the notification sink delivers the code to the address or the phone
  number, or fails.
\<close>

definition sendEmail :: "env \<Rightarrow> string option \<Rightarrow> string \<Rightarrow> world \<Rightarrow> error + world" where
  "sendEmail e addr body w =
     (if fault e SendEmail then Inl (Thrown SendEmail) else Inr (w\<lparr>outbox := outbox w @ [Email addr body]\<rparr>))"

definition sendSMS :: "env \<Rightarrow> string option \<Rightarrow> string \<Rightarrow> world \<Rightarrow> error + world" where
  "sendSMS e phone body w =
     (if fault e SendSMS then Inl (Thrown SendSMS) else Inr (w\<lparr>outbox := outbox w @ [SMS phone body]\<rparr>))"

text \<open>
  A session's transaction: the writes made with \<^verbatim>\<open>{ session }\<close> go to the
  transaction's copy \<open>txn\<close> of the world \<open>w\<close> it started from. Committing installs the
  copy, aborting drops it.
\<close>

definition commitTransaction :: "env \<Rightarrow> world \<Rightarrow> world \<Rightarrow> error + world" where
  "commitTransaction e w txn = (if fault e CommitTransaction then Inl (Thrown CommitTransaction) else Inr txn)"

definition abortTransaction :: "world \<Rightarrow> world \<Rightarrow> world" where
  "abortTransaction w txn = w"

subsection \<open>register\<close>

text \<open>
  The request body is \<open>nm\<close>, \<open>em\<close>, \<open>ph\<close>, \<open>pw\<close>, \<open>cpw\<close> for
  \<^verbatim>\<open>name\<close>, \<^verbatim>\<open>email\<close>, \<^verbatim>\<open>phoneNumber\<close>, \<^verbatim>\<open>password\<close>
  and \<^verbatim>\<open>confirmPassword\<close> (which the handler never reads). The email sent after
  the commit stands inside the \<^verbatim>\<open>try\<close>: when it throws, the \<^verbatim>\<open>catch\<close>
  calls \<^verbatim>\<open>abortTransaction\<close> on a committed transaction, which throws in turn, so
  the committed writes stay and the handler's promise rejects.
\<close>

definition register ::
  "env \<Rightarrow> string option \<Rightarrow> string option \<Rightarrow> string option \<Rightarrow> string option \<Rightarrow> string option
     \<Rightarrow> world \<Rightarrow> world \<times> outcome" where
  "register e nm em ph pw cpw w =
     (case bcrypt_hash e pw of
        Inl err \<Rightarrow> (w, Rejected err)
      | Inr hashedPassword \<Rightarrow>
          (let otp = generateOTP e;
               expiredAt = now e + 30 * 60 * 1000
           in case Auth_findOne e (\<lambda>d. email d = em) w of
                Inl err \<Rightarrow> (w, Next err)
              | Inr (Some auth) \<Rightarrow>
                  (if \<not> isVerified auth then
                     (let upd = (\<lambda>d. d\<lparr>verificationOTP := Some otp,
                                         verificationOTPExpiredAt := Some expiredAt\<rparr>);
                          auth' = upd auth
                      in case Auth_save e (auth_id auth') upd w of
                           Inl err \<Rightarrow> (w, Next err)
                         | Inr w1 \<Rightarrow>
                             (case sendEmail e em otp w1 of
                                Inl err \<Rightarrow> (w1, Rejected err)
                              | Inr w2 \<Rightarrow>
                                  (w2, Json CONFLICT False
                                         ''Your account already exists. Please verify now.''
                                         (Verification (isVerified auth') (verificationOTP auth')))))
                   else
                     (w, Json CONFLICT False ''Your account already exists. Please login now.''
                           (IsVerified (isVerified auth))))
              | Inr None \<Rightarrow>
                  (if fault e StartSession then (w, Rejected (Thrown StartSession))
                   else
                     (let txn = w;
                          auth = \<lparr>auth_id = fresh_auth_id e, email = em,
                                  password = Some hashedPassword, googleId = None,
                                  isVerified = False, isBlocked = False,
                                  verificationOTP = Some otp,
                                  verificationOTPExpiredAt = Some expiredAt,
                                  recoveryOTP = None, recoveryOTPExpiredAt = None\<rparr>
                      in case Auth_create e auth txn of
                           Inl err \<Rightarrow> (abortTransaction w txn, Next err)
                         | Inr txn1 \<Rightarrow>
                             (let user = \<lparr>user_id = fresh_user_id e, user_auth = auth_id auth,
                                          name = nm, phoneNumber = ph, avatar = None\<rparr>
                              in case User_create e user txn1 of
                                   Inl err \<Rightarrow> (abortTransaction w txn1, Next err)
                                 | Inr txn2 \<Rightarrow>
                                     (case commitTransaction e w txn2 of
                                        Inl err \<Rightarrow> (abortTransaction w txn2, Next err)
                                      | Inr w1 \<Rightarrow>
                                          (case sendEmail e em otp w1 of
                                             Inl err \<Rightarrow> (w1, Rejected (Thrown AbortTransaction))
                                           | Inr w2 \<Rightarrow>
                                               (w2, Json CREATED True ''Registration successful''
                                                      (Verification (isVerified auth)
                                                         (verificationOTP auth))))))))))"

subsection \<open>activate\<close>

text \<open>The string a truthy optional string holds.\<close>

definition str :: "string option \<Rightarrow> string" where
  "str s = (case s of None \<Rightarrow> [] | Some x \<Rightarrow> x)"

text \<open>
  The request body is \<open>em\<close>, \<open>otp\<close> for \<^verbatim>\<open>email\<close> and
  \<^verbatim>\<open>verificationOTP\<close>. The document is loaded without its password
  (\<^verbatim>\<open>select("-password")\<close>); saving it writes the three assigned paths only.
\<close>

definition activate :: "env \<Rightarrow> string option \<Rightarrow> string option \<Rightarrow> world \<Rightarrow> world \<times> outcome" where
  "activate e em otp w =
     (if falsy em \<or> falsy otp then
        (w, Next (HttpError BAD_REQUEST ''Email and Verification OTP are required.''))
      else
        (case Auth_findOne e (\<lambda>d. email d = em) w of
           Inl err \<Rightarrow> (w, Next err)
         | Inr None \<Rightarrow> (w, Next (HttpError NOT_FOUND ''User not found''))
         | Inr (Some doc) \<Rightarrow>
             (let auth = doc\<lparr>password := None\<rparr>;
                  currentTime = now e
              in if falsy (verificationOTP auth)
                    \<or> (case verificationOTPExpiredAt auth of
                          None \<Rightarrow> True
                        | Some t \<Rightarrow> currentTime > t) then
                   (w, Next (HttpError UNAUTHORIZED ''Verification OTP has expired.''))
                 else if otp \<noteq> verificationOTP auth then
                   (w, Next (HttpError UNAUTHORIZED ''Wrong OTP. Please enter the correct one''))
                 else
                   (let upd = (\<lambda>d. d\<lparr>verificationOTP := Some [],
                                       verificationOTPExpiredAt := None,
                                       isVerified := True\<rparr>);
                        auth' = upd auth
                    in case Auth_save e (auth_id auth') upd w of
                         Inl err \<Rightarrow> (w, Next err)
                       | Inr w1 \<Rightarrow>
                           (if falsy (JWT_ACCESS_SECRET e) then
                              (w1, Next (HttpError INTERNAL_SERVER_ERROR ''Unexpected Server Error''))
                            else
                              (let accessToken =
                                     generateToken (auth_id auth') (str (JWT_ACCESS_SECRET e)) ''96h''
                               in case User_findOne e (\<lambda>u. user_auth u = auth_id auth') w1 of
                                    Inl err \<Rightarrow> (w1, Next err)
                                  | Inr None \<Rightarrow>
                                      (w1, Next (HttpError NOT_FOUND ''Associated user not found.''))
                                  | Inr (Some user) \<Rightarrow>
                                      (w1, Json OK True ''Account successfully verified.''
                                             (Activated accessToken auth' user))))))))"

subsection \<open>login\<close>

text \<open>The request body is \<open>em\<close>, \<open>pw\<close> for \<^verbatim>\<open>email\<close> and \<^verbatim>\<open>password\<close>.\<close>

definition login :: "env \<Rightarrow> string option \<Rightarrow> string option \<Rightarrow> world \<Rightarrow> world \<times> outcome" where
  "login e em pw w =
     (case Auth_findOne e (\<lambda>d. email d = em) w of
        Inl err \<Rightarrow> (w, Next err)
      | Inr None \<Rightarrow> (w, Next (HttpError NOT_FOUND ''No account found with the given email''))
      | Inr (Some auth) \<Rightarrow>
          (case bcrypt_compare e pw (password auth) of
             Inl err \<Rightarrow> (w, Next err)
           | Inr isPasswordValid \<Rightarrow>
               (if \<not> isPasswordValid then (w, Next (HttpError UNAUTHORIZED ''Wrong password''))
                else if \<not> isVerified auth then
                  (w, Next (HttpError UNAUTHORIZED ''Verify your email first''))
                else if isBlocked auth then
                  (w, Next (HttpError FORBIDDEN
                              ''Your account had been blocked. Contact Administrator''))
                else if falsy (JWT_ACCESS_SECRET e) \<or> falsy (JWT_REFRESH_SECRET e) then
                  (w, Next (HttpError INTERNAL_SERVER_ERROR ''JWT secret is not defined.''))
                else
                  (let accessToken = generateToken (auth_id auth) (str (JWT_ACCESS_SECRET e)) ''96h'';
                       refreshToken = generateToken (auth_id auth) (str (JWT_REFRESH_SECRET e)) ''96h''
                   in case User_findOne e (\<lambda>u. user_auth u = auth_id auth) w of
                        Inl err \<Rightarrow> (w, Next err)
                      | Inr user \<Rightarrow>
                          (w, Json OK True ''Login successful''
                                (LoggedIn accessToken refreshToken auth user))))))"

subsection \<open>signInWithGoogle\<close>

text \<open>
  The request body is \<open>gid\<close>, \<open>nm\<close>, \<open>em\<close>, \<open>av\<close> for \<^verbatim>\<open>googleId\<close>,
  \<^verbatim>\<open>name\<close>, \<^verbatim>\<open>email\<close> and \<^verbatim>\<open>avatar\<close>. The two creations
  use no session: each is written to the store as soon as it succeeds.
\<close>

definition signInWithGoogle ::
  "env \<Rightarrow> string option \<Rightarrow> string option \<Rightarrow> string option \<Rightarrow> string option
     \<Rightarrow> world \<Rightarrow> world \<times> outcome" where
  "signInWithGoogle e gid nm em av w =
     (case Auth_findOne e (\<lambda>d. googleId d = gid) w of
        Inl err \<Rightarrow> (w, Next err)
      | Inr found \<Rightarrow>
          (case (case found of
                   Some auth \<Rightarrow> Inr (w, auth)
                 | None \<Rightarrow>
                     (let auth = \<lparr>auth_id = fresh_auth_id e, email = em, password = None,
                                  googleId = gid, isVerified = default_isVerified e,
                                  isBlocked = default_isBlocked e, verificationOTP = None,
                                  verificationOTPExpiredAt = None, recoveryOTP = None,
                                  recoveryOTPExpiredAt = None\<rparr>
                      in case Auth_create e auth w of
                           Inl err \<Rightarrow> Inl (w, err)
                         | Inr w1 \<Rightarrow>
                             (case User_create e
                                     \<lparr>user_id = fresh_user_id e, user_auth = auth_id auth,
                                      name = nm, phoneNumber = None, avatar = av\<rparr> w1 of
                                Inl err \<Rightarrow> Inl (w1, err)
                              | Inr w2 \<Rightarrow> Inr (w2, auth)))) of
             Inl (w', err) \<Rightarrow> (w', Next err)
           | Inr (w', auth) \<Rightarrow>
               (if falsy (JWT_ACCESS_SECRET e) \<or> falsy (JWT_REFRESH_SECRET e) then
                  (w', Next (HttpError INTERNAL_SERVER_ERROR ''JWT secret is not defined.''))
                else
                  (let accessToken = generateToken (auth_id auth) (str (JWT_ACCESS_SECRET e)) ''96h'';
                       refreshToken = generateToken (auth_id auth) (str (JWT_REFRESH_SECRET e)) ''96h''
                   in case User_findOne e (\<lambda>u. user_auth u = auth_id auth) w' of
                        Inl err \<Rightarrow> (w', Next err)
                      | Inr user \<Rightarrow>
                          (w', Json OK True ''Login successful''
                                 (LoggedIn accessToken refreshToken auth user))))))"

subsection \<open>resetPassword\<close>

text \<open>
  \<open>uemail\<close> is \<^verbatim>\<open>req.user.email\<close>, set by the recovery authorisation; the body
  is \<open>pw\<close>, \<open>cpw\<close> for \<^verbatim>\<open>password\<close> and \<^verbatim>\<open>confirmPassword\<close>. The
  hashing and the save are awaited without \<^verbatim>\<open>to\<close>.
\<close>

definition resetPassword ::
  "env \<Rightarrow> string \<Rightarrow> string option \<Rightarrow> string option \<Rightarrow> world \<Rightarrow> world \<times> outcome" where
  "resetPassword e uemail pw cpw w =
     (case Auth_findOne e (\<lambda>d. email d = Some uemail) w of
        Inl err \<Rightarrow> (w, Next err)
      | Inr None \<Rightarrow> (w, Next (HttpError NOT_FOUND ''User Not Found''))
      | Inr (Some auth) \<Rightarrow>
          (if pw \<noteq> cpw then (w, Next (HttpError BAD_REQUEST ''Passwords don't match''))
           else
             (case bcrypt_hash e pw of
                Inl err \<Rightarrow> (w, Rejected err)
              | Inr hashed \<Rightarrow>
                  (case Auth_save e (auth_id auth) (\<lambda>d. d\<lparr>password := Some hashed\<rparr>) w of
                     Inl err \<Rightarrow> (w, Rejected err)
                   | Inr w1 \<Rightarrow> (w1, Json OK True ''Password reset successful'' Empty)))))"

subsection \<open>resendOTP\<close>

text \<open>
  Modelled from the spec: the enumeration \<^verbatim>\<open>Method\<close> of \<^verbatim>\<open>shared/enums\<close>
  is not under src; the method is one of email activation, phone activation and email
  recovery.
\<close>

datatype Method = emailActivation | phoneActivation | emailRecovery

text \<open>
  The request body is \<open>meth\<close>, \<open>em\<close> for \<^verbatim>\<open>method\<close> and
  \<^verbatim>\<open>email\<close>. The phone branch reads \<^verbatim>\<open>user!.phoneNumber\<close> after
  the save: with no paired user that read throws a \<^verbatim>\<open>TypeError\<close> outside every
  \<^verbatim>\<open>to\<close>.
\<close>

definition resendOTP :: "env \<Rightarrow> Method \<Rightarrow> string option \<Rightarrow> world \<Rightarrow> world \<times> outcome" where
  "resendOTP e meth em w =
     (case Auth_findOne e (\<lambda>d. email d = em) w of
        Inl err \<Rightarrow> (w, Next err)
      | Inr None \<Rightarrow> (w, Next (HttpError NOT_FOUND ''Account not found''))
      | Inr (Some auth) \<Rightarrow>
          (if (meth = emailActivation \<or> meth = phoneActivation) \<and> isVerified auth then
             (w, Json CONFLICT True ''Your account is already verified. Please login.''
                   (IsVerified (isVerified auth)))
           else if meth = emailActivation \<and> \<not> isVerified auth then
             (let otp = generateOTP e;
                  upd = (\<lambda>d. d\<lparr>verificationOTP := Some otp,
                                 verificationOTPExpiredAt := Some (now e + 60 * 1000)\<rparr>);
                  auth' = upd auth
              in case Auth_save e (auth_id auth') upd w of
                   Inl err \<Rightarrow> (w, Next err)
                 | Inr w1 \<Rightarrow>
                     (case sendEmail e em otp w1 of
                        Inl err \<Rightarrow> (w1, Rejected err)
                      | Inr w2 \<Rightarrow>
                          (w2, Json OK True ''OTP resend successful''
                                 (Verification (isVerified auth') (verificationOTP auth')))))
           else if meth = phoneActivation \<and> \<not> isVerified auth then
             (let otp = generateOTP e;
                  upd = (\<lambda>d. d\<lparr>verificationOTP := Some otp,
                                 verificationOTPExpiredAt := Some (now e + 60 * 1000)\<rparr>);
                  auth' = upd auth
              in case User_findOne e (\<lambda>u. user_auth u = auth_id auth') w of
                   Inl err \<Rightarrow> (w, Next err)
                 | Inr user \<Rightarrow>
                     (case Auth_save e (auth_id auth') upd w of
                        Inl err \<Rightarrow> (w, Next err)
                      | Inr w1 \<Rightarrow>
                          (case user of
                             None \<Rightarrow> (w1, Rejected (Thrown ReadProperty))
                           | Some u \<Rightarrow>
                               (case sendSMS e (phoneNumber u) otp w1 of
                                  Inl err \<Rightarrow> (w1, Rejected err)
                                | Inr w2 \<Rightarrow>
                                    (w2, Json OK True ''OTP resend successful''
                                           (Verification (isVerified auth')
                                              (verificationOTP auth')))))))
           else if meth = emailRecovery then
             (let otp = generateOTP e;
                  upd = (\<lambda>d. d\<lparr>recoveryOTP := Some otp,
                                 recoveryOTPExpiredAt := Some (now e + 60 * 1000)\<rparr>);
                  auth' = upd auth
              in case Auth_save e (auth_id auth') upd w of
                   Inl err \<Rightarrow> (w, Next err)
                 | Inr w1 \<Rightarrow>
                     (case sendEmail e em otp w1 of
                        Inl err \<Rightarrow> (w1, Rejected err)
                      | Inr w2 \<Rightarrow>
                          (w2, Json OK True ''OTP resend successful'' (Recovery (recoveryOTP auth')))))
           else (w, NoResponse)))"

subsection \<open>changePassword\<close>

text \<open>
  \<open>authId\<close> is \<^verbatim>\<open>req.user.authId\<close>; the body is \<open>pw\<close>, \<open>newPw\<close>,
  \<open>cpw\<close> for \<^verbatim>\<open>password\<close>, \<^verbatim>\<open>newPassword\<close> and
  \<^verbatim>\<open>confirmPassword\<close>.
\<close>

definition changePassword ::
  "env \<Rightarrow> nat \<Rightarrow> string option \<Rightarrow> string option \<Rightarrow> string option \<Rightarrow> world \<Rightarrow> world \<times> outcome" where
  "changePassword e authId pw newPw cpw w =
     (case Auth_findById e authId w of
        Inl err \<Rightarrow> (w, Next err)
      | Inr None \<Rightarrow> (w, Next (HttpError NOT_FOUND ''User Not Found''))
      | Inr (Some auth) \<Rightarrow>
          (case bcrypt_compare e pw (password auth) of
             Inl err \<Rightarrow> (w, Next err)
           | Inr isMatch \<Rightarrow>
               (if \<not> isMatch then (w, Next (HttpError UNAUTHORIZED ''Wrong Password''))
                else
                  (case bcrypt_hash e newPw of
                     Inl err \<Rightarrow> (w, Rejected err)
                   | Inr hashed \<Rightarrow>
                       (case Auth_save e (auth_id auth) (\<lambda>d. d\<lparr>password := Some hashed\<rparr>) w of
                          Inl err \<Rightarrow> (w, Rejected err)
                        | Inr w1 \<Rightarrow> (w1, Json OK True ''Passowrd changed successfully'' Empty))))))"

subsection \<open>What the properties speak about\<close>

text \<open>No credential record without a profile: every Auth is referenced by some User.\<close>

definition orphan_free :: "world \<Rightarrow> bool" where
  "orphan_free w = list_all (\<lambda>a. list_ex (\<lambda>u. user_auth u = auth_id a) (users w)) (auths w)"

text \<open>
  Modelled from the spec: the error middleware that \<^verbatim>\<open>next(error)\<close> reaches is
  not under src; an error made by \<^verbatim>\<open>createError\<close> answers with its own status,
  any other error surfaces as an internal server error.
\<close>

fun errorStatus :: "error \<Rightarrow> StatusCode" where
  "errorStatus (HttpError s m) = s"
| "errorStatus (Thrown c) = INTERNAL_SERVER_ERROR"

subsection \<open>A small store to run the handlers on\<close>

text \<open>
  At time \<open>1000000\<close> nothing fails, both secrets are set, and the next generated code is
  \<open>482913\<close>. The stand-in for bcrypt prefixes the password; it is only used to run the
  handlers on the accounts below.
\<close>

definition env0 :: env where
  "env0 = \<lparr>now = 1000000, generateOTP = ''482913'',
            JWT_ACCESS_SECRET = Some ''access'', JWT_REFRESH_SECRET = Some ''refresh'',
            fresh_auth_id = 6, fresh_user_id = 16,
            default_isVerified = False, default_isBlocked = False,
            hash_of = (\<lambda>p. ''hash:'' @ p), matches = (\<lambda>p h. h = ''hash:'' @ p),
            fault = (\<lambda>c. False)\<rparr>"

text \<open>The same request environment with the creation of the User failing.\<close>

definition env_no_user :: env where
  "env_no_user = env0\<lparr>fault := (\<lambda>c. c = UserCreate)\<rparr>"

text \<open>Alice is verified; her activation code was consumed.\<close>

definition alice :: Auth where
  "alice = \<lparr>auth_id = 1, email = Some ''alice@x.com'', password = Some ''hash:pw'',
             googleId = None, isVerified = True, isBlocked = False,
             verificationOTP = Some [], verificationOTPExpiredAt = None,
             recoveryOTP = None, recoveryOTPExpiredAt = None\<rparr>"

text \<open>Bob has registered and holds a code that is still valid.\<close>

definition bob :: Auth where
  "bob = \<lparr>auth_id = 2, email = Some ''bob@x.com'', password = Some ''hash:pw'',
           googleId = None, isVerified = False, isBlocked = False,
           verificationOTP = Some ''111111'', verificationOTPExpiredAt = Some 2000000,
           recoveryOTP = None, recoveryOTPExpiredAt = None\<rparr>"

text \<open>Carol is verified and blocked.\<close>

definition carol :: Auth where
  "carol = \<lparr>auth_id = 3, email = Some ''carol@x.com'', password = Some ''hash:pw'',
             googleId = None, isVerified = True, isBlocked = True,
             verificationOTP = Some [], verificationOTPExpiredAt = None,
             recoveryOTP = None, recoveryOTPExpiredAt = None\<rparr>"

text \<open>Dave has registered; his code ran out at time \<open>500000\<close>.\<close>

definition dave :: Auth where
  "dave = \<lparr>auth_id = 4, email = Some ''dave@x.com'', password = Some ''hash:pw'',
            googleId = None, isVerified = False, isBlocked = True,
            verificationOTP = Some ''222222'', verificationOTPExpiredAt = Some 500000,
            recoveryOTP = None, recoveryOTPExpiredAt = None\<rparr>"

text \<open>Erin came in through Google: no password, never verified, and blocked since.\<close>

definition erin :: Auth where
  "erin = \<lparr>auth_id = 5, email = Some ''erin@x.com'', password = None,
            googleId = Some ''g-erin'', isVerified = False, isBlocked = True,
            verificationOTP = None, verificationOTPExpiredAt = None,
            recoveryOTP = None, recoveryOTPExpiredAt = None\<rparr>"

definition profile :: "nat \<Rightarrow> string \<Rightarrow> User" where
  "profile i phone = \<lparr>user_id = 10 + i, user_auth = i, name = None,
                       phoneNumber = Some phone, avatar = None\<rparr>"

definition world0 :: world where
  "world0 = \<lparr>auths = [alice, bob, carol, dave, erin],
              users = [profile 1 ''+1001'', profile 2 ''+1002'', profile 3 ''+1003'',
                       profile 4 ''+1004'', profile 5 ''+1005''],
              outbox = []\<rparr>"

lemmas store0 =
  env0_def env_no_user_def alice_def bob_def carol_def dave_def erin_def profile_def world0_def

section \<open>Properties\<close>

subsection \<open>Auxiliary facts\<close>

lemma find_map_same:
  assumes "\<And>x. P (f x) = P x"
  shows "find P (map f xs) = map_option f (find P xs)"
  using assms by (induction xs) simp_all

lemma find_append_first:
  "find P (xs @ ys) = (case find P xs of None \<Rightarrow> find P ys | Some x \<Rightarrow> Some x)"
  by (induction xs) simp_all

lemma activate_world:
  assumes "\<not> falsy em" and "\<not> falsy otp"
    and "Auth_findOne e (\<lambda>d. email d = em) w = Inr (Some doc)"
    and "verificationOTP doc = otp"
    and "verificationOTPExpiredAt doc = Some t" and "now e \<le> t"
    and "\<not> fault e AuthSave"
  shows "fst (activate e em otp w) =
           w\<lparr>auths := map (\<lambda>d. if auth_id d = auth_id doc
                                 then d\<lparr>verificationOTP := Some [], verificationOTPExpiredAt := None,
                                        isVerified := True\<rparr>
                                 else d) (auths w)\<rparr>"
  using assms
  by (simp add: activate_def Auth_save_def Let_def split: sum.splits option.splits)

lemma register_orphan_free:
  assumes "orphan_free w"
  shows "orphan_free (fst (register e nm em ph pw cpw w))"
proof (cases "bcrypt_hash e pw")
  case (Inl err)
  with assms show ?thesis by (simp add: register_def)
next
  case (Inr h)
  show ?thesis
  proof (cases "Auth_findOne e (\<lambda>d. email d = em) w")
    case (Inl err)
    with Inr assms show ?thesis by (simp add: register_def)
  next
    case found: (Inr r)
    show ?thesis
    proof (cases r)
      case None
      let ?a = "\<lparr>auth_id = fresh_auth_id e, email = em, password = Some h, googleId = None,
                 isVerified = False, isBlocked = False, verificationOTP = Some (generateOTP e),
                 verificationOTPExpiredAt = Some (now e + 30 * 60 * 1000),
                 recoveryOTP = None, recoveryOTPExpiredAt = None\<rparr>"
      let ?u = "\<lparr>user_id = fresh_user_id e, user_auth = fresh_auth_id e, name = nm,
                 phoneNumber = ph, avatar = None\<rparr>"
      have "fst (register e nm em ph pw cpw w) = w
            \<or> fst (register e nm em ph pw cpw w) = w\<lparr>auths := auths w @ [?a], users := users w @ [?u]\<rparr>
            \<or> fst (register e nm em ph pw cpw w) =
                 w\<lparr>auths := auths w @ [?a], users := users w @ [?u],
                    outbox := outbox w @ [Email em (generateOTP e)]\<rparr>"
        using Inr found None
        by (simp add: register_def Auth_create_def User_create_def commitTransaction_def
              abortTransaction_def sendEmail_def Let_def)
      with assms show ?thesis
        by (auto simp add: orphan_free_def list_all_iff list_ex_iff)
    next
      case (Some auth)
      let ?upd = "\<lambda>d. d\<lparr>verificationOTP := Some (generateOTP e),
                          verificationOTPExpiredAt := Some (now e + 30 * 60 * 1000)\<rparr>"
      let ?f = "\<lambda>d. if auth_id d = auth_id auth then ?upd d else d"
      have "fst (register e nm em ph pw cpw w) = w
            \<or> fst (register e nm em ph pw cpw w) = w\<lparr>auths := map ?f (auths w)\<rparr>
            \<or> fst (register e nm em ph pw cpw w) =
                 w\<lparr>auths := map ?f (auths w), outbox := outbox w @ [Email em (generateOTP e)]\<rparr>"
        using Inr found Some
        by (simp add: register_def Auth_save_def sendEmail_def Let_def)
      with assms show ?thesis
        by (elim disjE) (fastforce simp add: orphan_free_def list_all_iff list_ex_iff)+
    qed
  qed
qed

subsection \<open>register\<close>

text \<open>
  C1. Registration with a fresh email (the lookup finds no Auth for it) writes the Auth
  and its User in one transaction. When the creation of the Auth, of the User, or the
  commit fails, the world after the request is the world before it and no success response
  is sent; a fault injected after the Auth was created leaves no Auth behind. When nothing
  fails, exactly the new Auth and the User that references it are added and the response
  is \<open>CREATED\<close>; every success response stands for such a pair. Whatever fails, a store
  in which every Auth has a User is again such a store afterwards.
\<close>

theorem register_fresh_atomic:
  assumes "Auth_findOne e (\<lambda>d. email d = em) w = Inr None"
  shows "(fault e AuthCreate \<or> fault e UserCreate \<or> fault e CommitTransaction \<longrightarrow>
            fst (register e nm em ph pw cpw w) = w
            \<and> (\<forall>s b m d. snd (register e nm em ph pw cpw w) \<noteq> Json s b m d))
       \<and> (\<not> fault e StartSession \<and> \<not> fault e AuthCreate \<and> fault e UserCreate \<longrightarrow>
            register e nm em ph (Some p) cpw w = (w, Next (Thrown UserCreate)))
       \<and> (\<not> fault e StartSession \<and> \<not> fault e AuthCreate \<and> \<not> fault e UserCreate
            \<and> \<not> fault e CommitTransaction \<and> \<not> fault e SendEmail \<longrightarrow>
            register e nm em ph (Some p) cpw w =
              (w\<lparr>auths := auths w @
                    [\<lparr>auth_id = fresh_auth_id e, email = em, password = Some (hash_of e p),
                      googleId = None, isVerified = False, isBlocked = False,
                      verificationOTP = Some (generateOTP e),
                      verificationOTPExpiredAt = Some (now e + 1800000),
                      recoveryOTP = None, recoveryOTPExpiredAt = None\<rparr>],
                  users := users w @
                    [\<lparr>user_id = fresh_user_id e, user_auth = fresh_auth_id e, name = nm,
                      phoneNumber = ph, avatar = None\<rparr>],
                  outbox := outbox w @ [Email em (generateOTP e)]\<rparr>,
               Json CREATED True ''Registration successful''
                 (Verification False (Some (generateOTP e)))))
       \<and> (\<forall>s b m d. snd (register e nm em ph pw cpw w) = Json s b m d \<longrightarrow>
            s = CREATED
            \<and> (\<exists>a u. auths (fst (register e nm em ph pw cpw w)) = auths w @ [a]
                     \<and> users (fst (register e nm em ph pw cpw w)) = users w @ [u]
                     \<and> user_auth u = auth_id a \<and> email a = em))
       \<and> (orphan_free w \<longrightarrow> orphan_free (fst (register e nm em ph pw cpw w)))"
proof -
  have a: "fault e AuthCreate \<or> fault e UserCreate \<or> fault e CommitTransaction \<longrightarrow>
            fst (register e nm em ph pw cpw w) = w
            \<and> (\<forall>s b m d. snd (register e nm em ph pw cpw w) \<noteq> Json s b m d)"
    using assms
    by (simp add: register_def Auth_create_def User_create_def commitTransaction_def
          abortTransaction_def Let_def split: sum.splits)
  have b: "\<not> fault e StartSession \<and> \<not> fault e AuthCreate \<and> fault e UserCreate \<longrightarrow>
            register e nm em ph (Some p) cpw w = (w, Next (Thrown UserCreate))"
    using assms
    by (simp add: register_def bcrypt_hash_def Auth_create_def User_create_def
          abortTransaction_def Let_def)
  have c: "\<not> fault e StartSession \<and> \<not> fault e AuthCreate \<and> \<not> fault e UserCreate
            \<and> \<not> fault e CommitTransaction \<and> \<not> fault e SendEmail \<longrightarrow>
            register e nm em ph (Some p) cpw w =
              (w\<lparr>auths := auths w @
                    [\<lparr>auth_id = fresh_auth_id e, email = em, password = Some (hash_of e p),
                      googleId = None, isVerified = False, isBlocked = False,
                      verificationOTP = Some (generateOTP e),
                      verificationOTPExpiredAt = Some (now e + 1800000),
                      recoveryOTP = None, recoveryOTPExpiredAt = None\<rparr>],
                  users := users w @
                    [\<lparr>user_id = fresh_user_id e, user_auth = fresh_auth_id e, name = nm,
                      phoneNumber = ph, avatar = None\<rparr>],
                  outbox := outbox w @ [Email em (generateOTP e)]\<rparr>,
               Json CREATED True ''Registration successful''
                 (Verification False (Some (generateOTP e))))"
    using assms
    by (simp add: register_def bcrypt_hash_def Auth_create_def User_create_def
          commitTransaction_def sendEmail_def Let_def)
  have d: "\<forall>s b m d. snd (register e nm em ph pw cpw w) = Json s b m d \<longrightarrow>
            s = CREATED
            \<and> (\<exists>a u. auths (fst (register e nm em ph pw cpw w)) = auths w @ [a]
                     \<and> users (fst (register e nm em ph pw cpw w)) = users w @ [u]
                     \<and> user_auth u = auth_id a \<and> email a = em)"
    using assms
    by (simp add: register_def bcrypt_hash_def Auth_create_def User_create_def
          commitTransaction_def abortTransaction_def sendEmail_def Let_def
          split: sum.splits option.splits)
  show ?thesis
    using a b c d register_orphan_free [of w e nm em ph pw cpw] by simp
qed

text \<open>The statement above, run on the small store.\<close>

theorem register_fresh_atomic_witness:
  "register env_no_user None (Some ''frank@x.com'') (Some ''+1006'') (Some ''pw'') (Some ''pw'') world0 =
     (world0, Next (Thrown UserCreate))
   \<and> snd (register env0 None (Some ''frank@x.com'') (Some ''+1006'') (Some ''pw'') (Some ''pw'') world0) =
       Json CREATED True ''Registration successful'' (Verification False (Some ''482913''))
   \<and> map auth_id (auths (fst (register env0 None (Some ''frank@x.com'') (Some ''+1006'') (Some ''pw'')
                                   (Some ''pw'') world0))) = [1, 2, 3, 4, 5, 6]
   \<and> map user_auth (users (fst (register env0 None (Some ''frank@x.com'') (Some ''+1006'') (Some ''pw'')
                                     (Some ''pw'') world0))) = [1, 2, 3, 4, 5, 6]
   \<and> orphan_free world0
   \<and> orphan_free (fst (register env0 None (Some ''frank@x.com'') (Some ''+1006'') (Some ''pw'')
                           (Some ''pw'') world0))"
proof -
  have fresh: "Auth_findOne env0 (\<lambda>d. email d = Some ''frank@x.com'') world0 = Inr None"
    "Auth_findOne env_no_user (\<lambda>d. email d = Some ''frank@x.com'') world0 = Inr None"
    by (simp_all add: Auth_findOne_def store0)
  have faults: "\<not> fault env0 c" "fault env_no_user c = (c = UserCreate)" for c
    by (simp_all add: store0)
  have inv: "orphan_free world0"
    by (simp add: orphan_free_def store0)
  have ok: "register env0 None (Some ''frank@x.com'') (Some ''+1006'') (Some ''pw'') (Some ''pw'') world0 =
      (world0\<lparr>auths := auths world0 @
             [\<lparr>auth_id = fresh_auth_id env0, email = Some ''frank@x.com'',
               password = Some (hash_of env0 ''pw''), googleId = None, isVerified = False,
               isBlocked = False, verificationOTP = Some (generateOTP env0),
               verificationOTPExpiredAt = Some (now env0 + 1800000),
               recoveryOTP = None, recoveryOTPExpiredAt = None\<rparr>],
           users := users world0 @
             [\<lparr>user_id = fresh_user_id env0, user_auth = fresh_auth_id env0, name = None,
               phoneNumber = Some ''+1006'', avatar = None\<rparr>],
           outbox := outbox world0 @ [Email (Some ''frank@x.com'') (generateOTP env0)]\<rparr>,
       Json CREATED True ''Registration successful'' (Verification False (Some (generateOTP env0))))"
    using register_fresh_atomic [OF fresh(1), where p = "''pw''" and nm = None
        and ph = "Some ''+1006''" and cpw = "Some ''pw''" and pw = "Some ''pw''"] faults(1)
    by simp
  have aborted: "register env_no_user None (Some ''frank@x.com'') (Some ''+1006'') (Some ''pw'') (Some ''pw'') world0 =
     (world0, Next (Thrown UserCreate))"
    using register_fresh_atomic [OF fresh(2), where p = "''pw''" and nm = None
        and ph = "Some ''+1006''" and cpw = "Some ''pw''" and pw = "Some ''pw''"] faults(2)
    by simp
  have kept: "orphan_free (fst (register env0 None (Some ''frank@x.com'') (Some ''+1006'') (Some ''pw'')
                           (Some ''pw'') world0))"
    using register_fresh_atomic [OF fresh(1), where p = "''pw''" and nm = None
        and ph = "Some ''+1006''" and cpw = "Some ''pw''" and pw = "Some ''pw''"] inv
    by blast
  show ?thesis
    using aborted kept inv by (simp add: ok) (simp add: store0)
qed

subsection \<open>activate: single use\<close>

text \<open>
  C2. For an Auth that holds the supplied code, not yet expired, activation clears the code
  and its expiry and sets \<open>isVerified\<close> on exactly that document; the lookup then finds
  the document with the code consumed, and a second activation with the same code, at any
  later time, ends \<open>UNAUTHORIZED\<close> and changes nothing. With the access secret set and
  the paired User found, the first activation answers \<open>OK\<close> with the access token.
\<close>

theorem activate_single_use:
  assumes "\<not> falsy em" and "\<not> falsy otp"
    and "Auth_findOne e (\<lambda>d. email d = em) w = Inr (Some doc)"
    and "verificationOTP doc = otp"
    and "verificationOTPExpiredAt doc = Some t" and "now e \<le> t"
    and "\<not> fault e AuthSave" and "\<not> fault e' AuthFindOne"
  shows "fst (activate e em otp w) =
           w\<lparr>auths := map (\<lambda>d. if auth_id d = auth_id doc
                                 then d\<lparr>verificationOTP := Some [], verificationOTPExpiredAt := None,
                                        isVerified := True\<rparr>
                                 else d) (auths w)\<rparr>
         \<and> Auth_findOne e' (\<lambda>d. email d = em) (fst (activate e em otp w)) =
             Inr (Some (doc\<lparr>verificationOTP := Some [], verificationOTPExpiredAt := None,
                            isVerified := True\<rparr>))
         \<and> activate e' em otp (fst (activate e em otp w)) =
             (fst (activate e em otp w), Next (HttpError UNAUTHORIZED ''Verification OTP has expired.''))
         \<and> (\<not> falsy (JWT_ACCESS_SECRET e)
              \<and> User_findOne e (\<lambda>u. user_auth u = auth_id doc) (fst (activate e em otp w)) = Inr (Some user) \<longrightarrow>
            snd (activate e em otp w) =
              Json OK True ''Account successfully verified.''
                (Activated (generateToken (auth_id doc) (str (JWT_ACCESS_SECRET e)) ''96h'')
                   (doc\<lparr>password := None, verificationOTP := Some [],
                        verificationOTPExpiredAt := None, isVerified := True\<rparr>) user))"
proof -
  let ?upd = "\<lambda>d. d\<lparr>verificationOTP := Some [], verificationOTPExpiredAt := None, isVerified := True\<rparr>"
  let ?f = "\<lambda>d. if auth_id d = auth_id doc then ?upd d else d"
  let ?w1 = "w\<lparr>auths := map ?f (auths w)\<rparr>"
  have w1: "fst (activate e em otp w) = ?w1"
    using assms(1-7) by (rule activate_world)
  from assms(3) have found: "find (\<lambda>d. email d = em) (auths w) = Some doc"
    by (simp add: Auth_findOne_def split: if_splits)
  have "find (\<lambda>d. email d = em) (map ?f (auths w)) = map_option ?f (find (\<lambda>d. email d = em) (auths w))"
    by (rule find_map_same) simp
  with found have again: "Auth_findOne e' (\<lambda>d. email d = em) ?w1 = Inr (Some (?upd doc))"
    using assms(8) by (simp add: Auth_findOne_def)
  have second: "activate e' em otp ?w1 = (?w1, Next (HttpError UNAUTHORIZED ''Verification OTP has expired.''))"
    using assms(1,2) again by (simp add: activate_def falsy_def)
  have out: "\<not> falsy (JWT_ACCESS_SECRET e)
              \<and> User_findOne e (\<lambda>u. user_auth u = auth_id doc) ?w1 = Inr (Some user) \<longrightarrow>
            snd (activate e em otp w) =
              Json OK True ''Account successfully verified.''
                (Activated (generateToken (auth_id doc) (str (JWT_ACCESS_SECRET e)) ''96h'')
                   (doc\<lparr>password := None, verificationOTP := Some [],
                        verificationOTPExpiredAt := None, isVerified := True\<rparr>) user)"
    using assms(1-7) by (simp add: activate_def Auth_save_def Let_def)
  show ?thesis
    using w1 again second out by simp
qed

text \<open>The statement above, run on the small store.\<close>

theorem activate_single_use_witness:
  "map isVerified (auths world0) = [True, False, True, False, False]
   \<and> map isVerified (auths (fst (activate env0 (Some ''bob@x.com'') (Some ''111111'') world0))) =
       [True, True, True, False, False]
   \<and> map verificationOTP (auths (fst (activate env0 (Some ''bob@x.com'') (Some ''111111'') world0))) =
       [Some [], Some [], Some [], Some ''222222'', None]
   \<and> activate env0 (Some ''bob@x.com'') (Some ''111111'')
         (fst (activate env0 (Some ''bob@x.com'') (Some ''111111'') world0)) =
       (fst (activate env0 (Some ''bob@x.com'') (Some ''111111'') world0),
        Next (HttpError UNAUTHORIZED ''Verification OTP has expired.''))"
proof -
  have h: "\<not> falsy (Some ''bob@x.com'')" "\<not> falsy (Some ''111111'')"
    "Auth_findOne env0 (\<lambda>d. email d = Some ''bob@x.com'') world0 = Inr (Some bob)"
    "verificationOTP bob = Some ''111111''"
    "verificationOTPExpiredAt bob = Some 2000000" "now env0 \<le> 2000000"
    "\<not> fault env0 AuthSave" "\<not> fault env0 AuthFindOne"
    by (simp_all add: falsy_def Auth_findOne_def store0)
  note once = activate_single_use [OF h]
  have w1: "fst (activate env0 (Some ''bob@x.com'') (Some ''111111'') world0) =
      world0\<lparr>auths := map (\<lambda>d. if auth_id d = auth_id bob
                                 then d\<lparr>verificationOTP := Some [], verificationOTPExpiredAt := None,
                                        isVerified := True\<rparr>
                                 else d) (auths world0)\<rparr>"
    using once by blast
  have again: "activate env0 (Some ''bob@x.com'') (Some ''111111'')
         (fst (activate env0 (Some ''bob@x.com'') (Some ''111111'') world0)) =
       (fst (activate env0 (Some ''bob@x.com'') (Some ''111111'') world0),
        Next (HttpError UNAUTHORIZED ''Verification OTP has expired.''))"
    using once by blast
  have "map isVerified (auths world0) = [True, False, True, False, False]"
    by (simp add: store0)
  moreover have "map isVerified (auths (fst (activate env0 (Some ''bob@x.com'') (Some ''111111'') world0))) =
       [True, True, True, False, False]"
    by (simp add: w1) (simp add: store0)
  moreover have "map verificationOTP (auths (fst (activate env0 (Some ''bob@x.com'') (Some ''111111'') world0))) =
       [Some [], Some [], Some [], Some ''222222'', None]"
    by (simp add: w1) (simp add: store0)
  ultimately show ?thesis using again by simp
qed

subsection \<open>activate: expiry first\<close>

text \<open>
  C3. For an Auth whose code is missing, whose expiry is missing, or whose expiry lies
  before the current time, activation ends \<open>UNAUTHORIZED\<close> (expired) and changes
  nothing, whatever code the request supplies: the supplied code is not compared with the
  stored one before the expiry is decided.
\<close>

theorem activate_expired_before_compare:
  assumes "\<not> falsy em" and "\<not> falsy otp"
    and "Auth_findOne e (\<lambda>d. email d = em) w = Inr (Some doc)"
    and "falsy (verificationOTP doc) \<or> verificationOTPExpiredAt doc = None
         \<or> (\<exists>t. verificationOTPExpiredAt doc = Some t \<and> t < now e)"
  shows "activate e em otp w = (w, Next (HttpError UNAUTHORIZED ''Verification OTP has expired.''))"
  using assms by (auto simp add: activate_def)

text \<open>The statement above, run on the small store.\<close>

theorem activate_expired_before_compare_witness:
  "activate env0 (Some ''dave@x.com'') (Some ''222222'') world0 =
     (world0, Next (HttpError UNAUTHORIZED ''Verification OTP has expired.''))
   \<and> verificationOTP dave = Some ''222222''
   \<and> activate env0 (Some ''dave@x.com'') (Some ''999999'') world0 =
     (world0, Next (HttpError UNAUTHORIZED ''Verification OTP has expired.''))
   \<and> activate env0 (Some ''erin@x.com'') (Some ''999999'') world0 =
     (world0, Next (HttpError UNAUTHORIZED ''Verification OTP has expired.''))"
proof -
  have req: "\<not> falsy (Some ''dave@x.com'')" "\<not> falsy (Some ''erin@x.com'')"
    "\<not> falsy (Some ''222222'')" "\<not> falsy (Some ''999999'')"
    by (simp_all add: falsy_def)
  have d: "Auth_findOne env0 (\<lambda>d. email d = Some ''dave@x.com'') world0 = Inr (Some dave)"
    "falsy (verificationOTP dave) \<or> verificationOTPExpiredAt dave = None
       \<or> (\<exists>t. verificationOTPExpiredAt dave = Some t \<and> t < now env0)"
    by (simp_all add: Auth_findOne_def store0)
  have e: "Auth_findOne env0 (\<lambda>d. email d = Some ''erin@x.com'') world0 = Inr (Some erin)"
    "falsy (verificationOTP erin) \<or> verificationOTPExpiredAt erin = None
       \<or> (\<exists>t. verificationOTPExpiredAt erin = Some t \<and> t < now env0)"
    by (simp_all add: Auth_findOne_def falsy_def store0)
  have "verificationOTP dave = Some ''222222''"
    by (simp add: store0)
  then show ?thesis
    using activate_expired_before_compare [OF req(1) req(3) d]
      activate_expired_before_compare [OF req(1) req(4) d]
      activate_expired_before_compare [OF req(2) req(4) e]
    by simp
qed

subsection \<open>login\<close>

text \<open>
  C4. Login ends \<open>NOT_FOUND\<close> when no Auth has the email, \<open>UNAUTHORIZED\<close> when the
  password does not match (whether or not the account is verified or blocked),
  \<open>UNAUTHORIZED\<close> when the password matches and the account is unverified, and
  \<open>FORBIDDEN\<close> when the password matches and the verified account is blocked. In each
  case the world is unchanged.
\<close>

theorem login_error_order:
  "(Auth_findOne e (\<lambda>d. email d = em) w = Inr None \<longrightarrow>
      login e em pw w = (w, Next (HttpError NOT_FOUND ''No account found with the given email'')))
   \<and> (Auth_findOne e (\<lambda>d. email d = em) w = Inr (Some auth)
        \<and> bcrypt_compare e pw (password auth) = Inr False \<longrightarrow>
      login e em pw w = (w, Next (HttpError UNAUTHORIZED ''Wrong password'')))
   \<and> (Auth_findOne e (\<lambda>d. email d = em) w = Inr (Some auth)
        \<and> bcrypt_compare e pw (password auth) = Inr True \<and> \<not> isVerified auth \<longrightarrow>
      login e em pw w = (w, Next (HttpError UNAUTHORIZED ''Verify your email first'')))
   \<and> (Auth_findOne e (\<lambda>d. email d = em) w = Inr (Some auth)
        \<and> bcrypt_compare e pw (password auth) = Inr True \<and> isVerified auth \<and> isBlocked auth \<longrightarrow>
      login e em pw w =
        (w, Next (HttpError FORBIDDEN ''Your account had been blocked. Contact Administrator'')))"
  by (simp add: login_def)

text \<open>The statement above, run on the small store.\<close>

theorem login_error_order_witness:
  "login env0 (Some ''nobody@x.com'') (Some ''pw'') world0 =
     (world0, Next (HttpError NOT_FOUND ''No account found with the given email''))
   \<and> login env0 (Some ''dave@x.com'') (Some ''guess'') world0 =
     (world0, Next (HttpError UNAUTHORIZED ''Wrong password''))
   \<and> login env0 (Some ''bob@x.com'') (Some ''pw'') world0 =
     (world0, Next (HttpError UNAUTHORIZED ''Verify your email first''))
   \<and> login env0 (Some ''carol@x.com'') (Some ''pw'') world0 =
     (world0, Next (HttpError FORBIDDEN ''Your account had been blocked. Contact Administrator''))"
proof -
  have nobody: "Auth_findOne env0 (\<lambda>d. email d = Some ''nobody@x.com'') world0 = Inr None"
    by (simp add: Auth_findOne_def store0)
  have d: "Auth_findOne env0 (\<lambda>d. email d = Some ''dave@x.com'') world0 = Inr (Some dave)"
    "bcrypt_compare env0 (Some ''guess'') (password dave) = Inr False"
    by (simp_all add: Auth_findOne_def bcrypt_compare_def store0)
  have b: "Auth_findOne env0 (\<lambda>d. email d = Some ''bob@x.com'') world0 = Inr (Some bob)"
    "bcrypt_compare env0 (Some ''pw'') (password bob) = Inr True" "\<not> isVerified bob"
    by (simp_all add: Auth_findOne_def bcrypt_compare_def store0)
  have c: "Auth_findOne env0 (\<lambda>d. email d = Some ''carol@x.com'') world0 = Inr (Some carol)"
    "bcrypt_compare env0 (Some ''pw'') (password carol) = Inr True" "isVerified carol" "isBlocked carol"
    by (simp_all add: Auth_findOne_def bcrypt_compare_def store0)
  show ?thesis
    using nobody d b c
      login_error_order [where e = env0 and em = "Some ''nobody@x.com''" and w = world0
        and auth = dave and pw = "Some ''pw''"]
      login_error_order [where e = env0 and em = "Some ''dave@x.com''" and w = world0
        and auth = dave and pw = "Some ''guess''"]
      login_error_order [where e = env0 and em = "Some ''bob@x.com''" and w = world0
        and auth = bob and pw = "Some ''pw''"]
      login_error_order [where e = env0 and em = "Some ''carol@x.com''" and w = world0
        and auth = carol and pw = "Some ''pw''"]
    by simp
qed

subsection \<open>signInWithGoogle\<close>

text \<open>
  C5. Sign-in with Google looks the Auth up by \<open>googleId\<close>. For a known identity it
  answers \<open>OK\<close> with an access and a refresh token, whatever \<open>isVerified\<close> and
  \<open>isBlocked\<close> say. For an unknown one it creates an Auth without a password and a
  User that references it, and answers the same way. The two writes are independent: when
  the creation of the User fails, the new Auth stays in the store. Every success response
  carries both tokens.
\<close>

theorem signInWithGoogle_no_gate:
  "(Auth_findOne e (\<lambda>d. googleId d = gid) w = Inr (Some auth)
      \<and> \<not> falsy (JWT_ACCESS_SECRET e) \<and> \<not> falsy (JWT_REFRESH_SECRET e) \<and> \<not> fault e UserFindOne \<longrightarrow>
    signInWithGoogle e gid nm em av w =
      (w, Json OK True ''Login successful''
            (LoggedIn (generateToken (auth_id auth) (str (JWT_ACCESS_SECRET e)) ''96h'')
               (generateToken (auth_id auth) (str (JWT_REFRESH_SECRET e)) ''96h'') auth
               (find (\<lambda>u. user_auth u = auth_id auth) (users w)))))
   \<and> (Auth_findOne e (\<lambda>d. googleId d = gid) w = Inr None
      \<and> \<not> fault e AuthCreate \<and> \<not> fault e UserCreate
      \<and> \<not> falsy (JWT_ACCESS_SECRET e) \<and> \<not> falsy (JWT_REFRESH_SECRET e) \<and> \<not> fault e UserFindOne \<longrightarrow>
    signInWithGoogle e gid nm em av w =
      (w\<lparr>auths := auths w @
            [\<lparr>auth_id = fresh_auth_id e, email = em, password = None, googleId = gid,
              isVerified = default_isVerified e, isBlocked = default_isBlocked e,
              verificationOTP = None, verificationOTPExpiredAt = None,
              recoveryOTP = None, recoveryOTPExpiredAt = None\<rparr>],
          users := users w @
            [\<lparr>user_id = fresh_user_id e, user_auth = fresh_auth_id e, name = nm,
              phoneNumber = None, avatar = av\<rparr>]\<rparr>,
       Json OK True ''Login successful''
         (LoggedIn (generateToken (fresh_auth_id e) (str (JWT_ACCESS_SECRET e)) ''96h'')
            (generateToken (fresh_auth_id e) (str (JWT_REFRESH_SECRET e)) ''96h'')
            \<lparr>auth_id = fresh_auth_id e, email = em, password = None, googleId = gid,
              isVerified = default_isVerified e, isBlocked = default_isBlocked e,
              verificationOTP = None, verificationOTPExpiredAt = None,
              recoveryOTP = None, recoveryOTPExpiredAt = None\<rparr>
            (find (\<lambda>u. user_auth u = fresh_auth_id e)
               (users w @ [\<lparr>user_id = fresh_user_id e, user_auth = fresh_auth_id e, name = nm,
                             phoneNumber = None, avatar = av\<rparr>])))))
   \<and> (Auth_findOne e (\<lambda>d. googleId d = gid) w = Inr None
      \<and> \<not> fault e AuthCreate \<and> fault e UserCreate \<longrightarrow>
    signInWithGoogle e gid nm em av w =
      (w\<lparr>auths := auths w @
            [\<lparr>auth_id = fresh_auth_id e, email = em, password = None, googleId = gid,
              isVerified = default_isVerified e, isBlocked = default_isBlocked e,
              verificationOTP = None, verificationOTPExpiredAt = None,
              recoveryOTP = None, recoveryOTPExpiredAt = None\<rparr>]\<rparr>,
       Next (Thrown UserCreate)))
   \<and> (\<forall>s b m d. snd (signInWithGoogle e gid nm em av w) = Json s b m d \<longrightarrow>
        (\<exists>a u. d = LoggedIn (generateToken (auth_id a) (str (JWT_ACCESS_SECRET e)) ''96h'')
                      (generateToken (auth_id a) (str (JWT_REFRESH_SECRET e)) ''96h'') a u))"
proof -
  have found: "Auth_findOne e (\<lambda>d. googleId d = gid) w = Inr (Some auth)
      \<and> \<not> falsy (JWT_ACCESS_SECRET e) \<and> \<not> falsy (JWT_REFRESH_SECRET e) \<and> \<not> fault e UserFindOne \<longrightarrow>
    signInWithGoogle e gid nm em av w =
      (w, Json OK True ''Login successful''
            (LoggedIn (generateToken (auth_id auth) (str (JWT_ACCESS_SECRET e)) ''96h'')
               (generateToken (auth_id auth) (str (JWT_REFRESH_SECRET e)) ''96h'') auth
               (find (\<lambda>u. user_auth u = auth_id auth) (users w))))"
    by (simp add: signInWithGoogle_def User_findOne_def)
  have created: "Auth_findOne e (\<lambda>d. googleId d = gid) w = Inr None
      \<and> \<not> fault e AuthCreate \<and> \<not> fault e UserCreate
      \<and> \<not> falsy (JWT_ACCESS_SECRET e) \<and> \<not> falsy (JWT_REFRESH_SECRET e) \<and> \<not> fault e UserFindOne \<longrightarrow>
    signInWithGoogle e gid nm em av w =
      (w\<lparr>auths := auths w @
            [\<lparr>auth_id = fresh_auth_id e, email = em, password = None, googleId = gid,
              isVerified = default_isVerified e, isBlocked = default_isBlocked e,
              verificationOTP = None, verificationOTPExpiredAt = None,
              recoveryOTP = None, recoveryOTPExpiredAt = None\<rparr>],
          users := users w @
            [\<lparr>user_id = fresh_user_id e, user_auth = fresh_auth_id e, name = nm,
              phoneNumber = None, avatar = av\<rparr>]\<rparr>,
       Json OK True ''Login successful''
         (LoggedIn (generateToken (fresh_auth_id e) (str (JWT_ACCESS_SECRET e)) ''96h'')
            (generateToken (fresh_auth_id e) (str (JWT_REFRESH_SECRET e)) ''96h'')
            \<lparr>auth_id = fresh_auth_id e, email = em, password = None, googleId = gid,
              isVerified = default_isVerified e, isBlocked = default_isBlocked e,
              verificationOTP = None, verificationOTPExpiredAt = None,
              recoveryOTP = None, recoveryOTPExpiredAt = None\<rparr>
            (find (\<lambda>u. user_auth u = fresh_auth_id e)
               (users w @ [\<lparr>user_id = fresh_user_id e, user_auth = fresh_auth_id e, name = nm,
                             phoneNumber = None, avatar = av\<rparr>]))))"
    by (simp add: signInWithGoogle_def User_findOne_def Auth_create_def User_create_def Let_def)
  have orphan: "Auth_findOne e (\<lambda>d. googleId d = gid) w = Inr None
      \<and> \<not> fault e AuthCreate \<and> fault e UserCreate \<longrightarrow>
    signInWithGoogle e gid nm em av w =
      (w\<lparr>auths := auths w @
            [\<lparr>auth_id = fresh_auth_id e, email = em, password = None, googleId = gid,
              isVerified = default_isVerified e, isBlocked = default_isBlocked e,
              verificationOTP = None, verificationOTPExpiredAt = None,
              recoveryOTP = None, recoveryOTPExpiredAt = None\<rparr>]\<rparr>,
       Next (Thrown UserCreate))"
    by (simp add: signInWithGoogle_def Auth_create_def User_create_def Let_def)
  have tokens: "\<forall>s b m d. snd (signInWithGoogle e gid nm em av w) = Json s b m d \<longrightarrow>
        (\<exists>a u. d = LoggedIn (generateToken (auth_id a) (str (JWT_ACCESS_SECRET e)) ''96h'')
                      (generateToken (auth_id a) (str (JWT_REFRESH_SECRET e)) ''96h'') a u)"
    by (auto simp add: signInWithGoogle_def Let_def split: sum.splits option.splits if_splits prod.splits)
  show ?thesis
    using found created orphan tokens by simp
qed

text \<open>The statement above, run on the small store.\<close>

theorem signInWithGoogle_no_gate_witness:
  "isVerified erin = False \<and> isBlocked erin = True
   \<and> signInWithGoogle env0 (Some ''g-erin'') None (Some ''erin@x.com'') None world0 =
       (world0, Json OK True ''Login successful''
                  (LoggedIn (Token 5 ''access'' ''96h'') (Token 5 ''refresh'' ''96h'') erin
                     (Some (profile 5 ''+1005''))))
   \<and> snd (signInWithGoogle env0 (Some ''g-gina'') None (Some ''gina@x.com'') None world0) =
       Json OK True ''Login successful''
         (LoggedIn (Token 6 ''access'' ''96h'') (Token 6 ''refresh'' ''96h'')
            \<lparr>auth_id = 6, email = Some ''gina@x.com'', password = None, googleId = Some ''g-gina'',
              isVerified = False, isBlocked = False, verificationOTP = None,
              verificationOTPExpiredAt = None, recoveryOTP = None, recoveryOTPExpiredAt = None\<rparr>
            (Some \<lparr>user_id = 16, user_auth = 6, name = None, phoneNumber = None, avatar = None\<rparr>))
   \<and> map auth_id (auths (fst (signInWithGoogle env_no_user (Some ''g-gina'') None (Some ''gina@x.com'')
                                   None world0))) = [1, 2, 3, 4, 5, 6]
   \<and> map user_auth (users (fst (signInWithGoogle env_no_user (Some ''g-gina'') None (Some ''gina@x.com'')
                                     None world0))) = [1, 2, 3, 4, 5]
   \<and> snd (signInWithGoogle env_no_user (Some ''g-gina'') None (Some ''gina@x.com'') None world0) =
       Next (Thrown UserCreate)"
proof -
  have known: "Auth_findOne env0 (\<lambda>d. googleId d = Some ''g-erin'') world0 = Inr (Some erin)"
    and new: "Auth_findOne env0 (\<lambda>d. googleId d = Some ''g-gina'') world0 = Inr None"
      "Auth_findOne env_no_user (\<lambda>d. googleId d = Some ''g-gina'') world0 = Inr None"
    by (simp_all add: Auth_findOne_def store0)
  have env: "\<not> falsy (JWT_ACCESS_SECRET env0)" "\<not> falsy (JWT_REFRESH_SECRET env0)"
    "\<not> fault env0 c" "fault env_no_user c = (c = UserCreate)" for c
    by (simp_all add: falsy_def store0)
  have a: "signInWithGoogle env0 (Some ''g-erin'') None (Some ''erin@x.com'') None world0 =
      (world0, Json OK True ''Login successful''
            (LoggedIn (generateToken (auth_id erin) (str (JWT_ACCESS_SECRET env0)) ''96h'')
               (generateToken (auth_id erin) (str (JWT_REFRESH_SECRET env0)) ''96h'') erin
               (find (\<lambda>u. user_auth u = auth_id erin) (users world0))))"
    using signInWithGoogle_no_gate [where e = env0 and gid = "Some ''g-erin''" and w = world0
        and auth = erin and nm = None and em = "Some ''erin@x.com''" and av = None] known env
    by simp
  have b: "signInWithGoogle env0 (Some ''g-gina'') None (Some ''gina@x.com'') None world0 =
      (world0\<lparr>auths := auths world0 @
            [\<lparr>auth_id = fresh_auth_id env0, email = Some ''gina@x.com'', password = None,
              googleId = Some ''g-gina'',
              isVerified = default_isVerified env0, isBlocked = default_isBlocked env0,
              verificationOTP = None, verificationOTPExpiredAt = None,
              recoveryOTP = None, recoveryOTPExpiredAt = None\<rparr>],
          users := users world0 @
            [\<lparr>user_id = fresh_user_id env0, user_auth = fresh_auth_id env0, name = None,
              phoneNumber = None, avatar = None\<rparr>]\<rparr>,
       Json OK True ''Login successful''
         (LoggedIn (generateToken (fresh_auth_id env0) (str (JWT_ACCESS_SECRET env0)) ''96h'')
            (generateToken (fresh_auth_id env0) (str (JWT_REFRESH_SECRET env0)) ''96h'')
            \<lparr>auth_id = fresh_auth_id env0, email = Some ''gina@x.com'', password = None,
              googleId = Some ''g-gina'',
              isVerified = default_isVerified env0, isBlocked = default_isBlocked env0,
              verificationOTP = None, verificationOTPExpiredAt = None,
              recoveryOTP = None, recoveryOTPExpiredAt = None\<rparr>
            (find (\<lambda>u. user_auth u = fresh_auth_id env0)
               (users world0 @ [\<lparr>user_id = fresh_user_id env0, user_auth = fresh_auth_id env0,
                                  name = None, phoneNumber = None, avatar = None\<rparr>]))))"
    using signInWithGoogle_no_gate [where e = env0 and gid = "Some ''g-gina''" and w = world0
        and auth = erin and nm = None and em = "Some ''gina@x.com''" and av = None] new(1) env
    by simp
  have c: "signInWithGoogle env_no_user (Some ''g-gina'') None (Some ''gina@x.com'') None world0 =
      (world0\<lparr>auths := auths world0 @
            [\<lparr>auth_id = fresh_auth_id env_no_user, email = Some ''gina@x.com'', password = None,
              googleId = Some ''g-gina'',
              isVerified = default_isVerified env_no_user, isBlocked = default_isBlocked env_no_user,
              verificationOTP = None, verificationOTPExpiredAt = None,
              recoveryOTP = None, recoveryOTPExpiredAt = None\<rparr>]\<rparr>,
       Next (Thrown UserCreate))"
    using signInWithGoogle_no_gate [where e = env_no_user and gid = "Some ''g-gina''" and w = world0
        and auth = erin and nm = None and em = "Some ''gina@x.com''" and av = None] new(2) env(4)
    by simp
  show ?thesis
    by (simp add: a b c) (simp add: generateToken_def str_def store0)
qed

subsection \<open>resendOTP\<close>

text \<open>
  C6. For an existing account: an activation method on a verified account answers
  \<open>CONFLICT\<close> with the success flag set and changes nothing. Otherwise, when no call
  fails, a fresh code of the method's kind with an expiry 60 seconds ahead is stored on the
  account and dispatched: by email for email activation and email recovery, by SMS to the
  phone number of the paired User for phone activation.
\<close>

theorem resendOTP_branches:
  assumes "Auth_findOne e (\<lambda>d. email d = em) w = Inr (Some auth)"
  shows "((meth = emailActivation \<or> meth = phoneActivation) \<and> isVerified auth \<longrightarrow>
            resendOTP e meth em w =
              (w, Json CONFLICT True ''Your account is already verified. Please login.'' (IsVerified True)))
       \<and> (meth = emailActivation \<and> \<not> isVerified auth \<and> \<not> fault e AuthSave \<and> \<not> fault e SendEmail \<longrightarrow>
            resendOTP e meth em w =
              (w\<lparr>auths := map (\<lambda>d. if auth_id d = auth_id auth
                                    then d\<lparr>verificationOTP := Some (generateOTP e),
                                           verificationOTPExpiredAt := Some (now e + 60000)\<rparr>
                                    else d) (auths w),
                  outbox := outbox w @ [Email em (generateOTP e)]\<rparr>,
               Json OK True ''OTP resend successful'' (Verification False (Some (generateOTP e)))))
       \<and> (meth = phoneActivation \<and> \<not> isVerified auth
            \<and> User_findOne e (\<lambda>u. user_auth u = auth_id auth) w = Inr (Some user)
            \<and> \<not> fault e AuthSave \<and> \<not> fault e SendSMS \<longrightarrow>
            resendOTP e meth em w =
              (w\<lparr>auths := map (\<lambda>d. if auth_id d = auth_id auth
                                    then d\<lparr>verificationOTP := Some (generateOTP e),
                                           verificationOTPExpiredAt := Some (now e + 60000)\<rparr>
                                    else d) (auths w),
                  outbox := outbox w @ [SMS (phoneNumber user) (generateOTP e)]\<rparr>,
               Json OK True ''OTP resend successful'' (Verification False (Some (generateOTP e)))))
       \<and> (meth = emailRecovery \<and> \<not> fault e AuthSave \<and> \<not> fault e SendEmail \<longrightarrow>
            resendOTP e meth em w =
              (w\<lparr>auths := map (\<lambda>d. if auth_id d = auth_id auth
                                    then d\<lparr>recoveryOTP := Some (generateOTP e),
                                           recoveryOTPExpiredAt := Some (now e + 60000)\<rparr>
                                    else d) (auths w),
                  outbox := outbox w @ [Email em (generateOTP e)]\<rparr>,
               Json OK True ''OTP resend successful'' (Recovery (Some (generateOTP e)))))"
  using assms by (simp add: resendOTP_def Auth_save_def sendEmail_def sendSMS_def Let_def)

text \<open>The statement above, run on the small store.\<close>

theorem resendOTP_branches_witness:
  "resendOTP env0 emailActivation (Some ''alice@x.com'') world0 =
     (world0, Json CONFLICT True ''Your account is already verified. Please login.'' (IsVerified True))
   \<and> resendOTP env0 phoneActivation (Some ''carol@x.com'') world0 =
     (world0, Json CONFLICT True ''Your account is already verified. Please login.'' (IsVerified True))
   \<and> snd (resendOTP env0 emailActivation (Some ''bob@x.com'') world0) =
       Json OK True ''OTP resend successful'' (Verification False (Some ''482913''))
   \<and> outbox (fst (resendOTP env0 emailActivation (Some ''bob@x.com'') world0)) =
       [Email (Some ''bob@x.com'') ''482913'']
   \<and> map verificationOTPExpiredAt (auths (fst (resendOTP env0 emailActivation (Some ''bob@x.com'') world0))) =
       [None, Some 1060000, None, Some 500000, None]
   \<and> outbox (fst (resendOTP env0 phoneActivation (Some ''bob@x.com'') world0)) =
       [SMS (Some ''+1002'') ''482913'']
   \<and> map verificationOTP (auths (fst (resendOTP env0 phoneActivation (Some ''bob@x.com'') world0))) =
       [Some [], Some ''482913'', Some [], Some ''222222'', None]
   \<and> outbox (fst (resendOTP env0 emailRecovery (Some ''alice@x.com'') world0)) =
       [Email (Some ''alice@x.com'') ''482913'']
   \<and> map recoveryOTPExpiredAt (auths (fst (resendOTP env0 emailRecovery (Some ''alice@x.com'') world0))) =
       [Some 1060000, None, None, None, None]"
proof -
  have found: "Auth_findOne env0 (\<lambda>d. email d = Some ''alice@x.com'') world0 = Inr (Some alice)"
    "Auth_findOne env0 (\<lambda>d. email d = Some ''bob@x.com'') world0 = Inr (Some bob)"
    "Auth_findOne env0 (\<lambda>d. email d = Some ''carol@x.com'') world0 = Inr (Some carol)"
    by (simp_all add: Auth_findOne_def store0)
  have paired: "User_findOne env0 (\<lambda>u. user_auth u = auth_id bob) world0 = Inr (Some (profile 2 ''+1002''))"
    by (simp add: User_findOne_def store0)
  have facts: "isVerified alice" "isVerified carol" "\<not> isVerified bob" "\<not> fault env0 c" for c
    by (simp_all add: store0)
  have a: "resendOTP env0 emailActivation (Some ''alice@x.com'') world0 =
     (world0, Json CONFLICT True ''Your account is already verified. Please login.'' (IsVerified True))"
    using resendOTP_branches [OF found(1), where meth = emailActivation] facts by simp
  have c: "resendOTP env0 phoneActivation (Some ''carol@x.com'') world0 =
     (world0, Json CONFLICT True ''Your account is already verified. Please login.'' (IsVerified True))"
    using resendOTP_branches [OF found(3), where meth = phoneActivation] facts by simp
  have be: "resendOTP env0 emailActivation (Some ''bob@x.com'') world0 =
              (world0\<lparr>auths := map (\<lambda>d. if auth_id d = auth_id bob
                                    then d\<lparr>verificationOTP := Some (generateOTP env0),
                                           verificationOTPExpiredAt := Some (now env0 + 60000)\<rparr>
                                    else d) (auths world0),
                  outbox := outbox world0 @ [Email (Some ''bob@x.com'') (generateOTP env0)]\<rparr>,
               Json OK True ''OTP resend successful'' (Verification False (Some (generateOTP env0))))"
    using resendOTP_branches [OF found(2), where meth = emailActivation] facts by simp
  have bp: "resendOTP env0 phoneActivation (Some ''bob@x.com'') world0 =
              (world0\<lparr>auths := map (\<lambda>d. if auth_id d = auth_id bob
                                    then d\<lparr>verificationOTP := Some (generateOTP env0),
                                           verificationOTPExpiredAt := Some (now env0 + 60000)\<rparr>
                                    else d) (auths world0),
                  outbox := outbox world0 @ [SMS (phoneNumber (profile 2 ''+1002'')) (generateOTP env0)]\<rparr>,
               Json OK True ''OTP resend successful'' (Verification False (Some (generateOTP env0))))"
    using resendOTP_branches [OF found(2), where meth = phoneActivation
        and user = "profile 2 ''+1002''"] facts paired by simp
  have ar: "resendOTP env0 emailRecovery (Some ''alice@x.com'') world0 =
              (world0\<lparr>auths := map (\<lambda>d. if auth_id d = auth_id alice
                                    then d\<lparr>recoveryOTP := Some (generateOTP env0),
                                           recoveryOTPExpiredAt := Some (now env0 + 60000)\<rparr>
                                    else d) (auths world0),
                  outbox := outbox world0 @ [Email (Some ''alice@x.com'') (generateOTP env0)]\<rparr>,
               Json OK True ''OTP resend successful'' (Recovery (Some (generateOTP env0))))"
    using resendOTP_branches [OF found(1), where meth = emailRecovery] facts by simp
  show ?thesis
    by (simp add: a c be bp ar) (simp add: store0)
qed

subsection \<open>changePassword\<close>

text \<open>
  C7. When the supplied old password does not match the stored hash, changing the password
  ends \<open>UNAUTHORIZED\<close> and the world is unchanged. The confirmation field is never
  read: the handler's result is the same for every value of it, and a matching old password
  leads to the new hash being stored even when the confirmation differs.
\<close>

theorem changePassword_wrong_old_password:
  "(Auth_findById e authId w = Inr (Some auth) \<and> bcrypt_compare e pw (password auth) = Inr False \<longrightarrow>
      changePassword e authId pw newPw cpw w = (w, Next (HttpError UNAUTHORIZED ''Wrong Password'')))
   \<and> changePassword e authId pw newPw cpw w = changePassword e authId pw newPw cpw' w
   \<and> (Auth_findById e authId w = Inr (Some auth) \<and> bcrypt_compare e pw (password auth) = Inr True
        \<and> \<not> fault e AuthSave \<longrightarrow>
      changePassword e authId pw (Some n) cpw w =
        (w\<lparr>auths := map (\<lambda>d. if auth_id d = auth_id auth then d\<lparr>password := Some (hash_of e n)\<rparr> else d)
                        (auths w)\<rparr>,
         Json OK True ''Passowrd changed successfully'' Empty))"
  by (simp add: changePassword_def bcrypt_hash_def Auth_save_def)

text \<open>The statement above, run on the small store.\<close>

theorem changePassword_wrong_old_password_witness:
  "changePassword env0 1 (Some ''guess'') (Some ''new'') (Some ''new'') world0 =
     (world0, Next (HttpError UNAUTHORIZED ''Wrong Password''))
   \<and> snd (changePassword env0 1 (Some ''pw'') (Some ''new'') (Some ''other'') world0) =
       Json OK True ''Passowrd changed successfully'' Empty
   \<and> map password (auths (fst (changePassword env0 1 (Some ''pw'') (Some ''new'') (Some ''other'') world0))) =
       [Some ''hash:new'', Some ''hash:pw'', Some ''hash:pw'', Some ''hash:pw'', None]"
proof -
  have found: "Auth_findById env0 1 world0 = Inr (Some alice)"
    by (simp add: Auth_findById_def store0)
  have cmp: "bcrypt_compare env0 (Some ''guess'') (password alice) = Inr False"
    "bcrypt_compare env0 (Some ''pw'') (password alice) = Inr True"
    "\<not> fault env0 AuthSave"
    by (simp_all add: bcrypt_compare_def store0)
  have wrong: "changePassword env0 1 (Some ''guess'') (Some ''new'') (Some ''new'') world0 =
     (world0, Next (HttpError UNAUTHORIZED ''Wrong Password''))"
    using changePassword_wrong_old_password [where e = env0 and authId = 1 and w = world0
        and auth = alice and pw = "Some ''guess''" and newPw = "Some ''new''" and cpw = "Some ''new''"]
      found cmp(1)
    by simp
  have right: "changePassword env0 1 (Some ''pw'') (Some ''new'') (Some ''other'') world0 =
        (world0\<lparr>auths := map (\<lambda>d. if auth_id d = auth_id alice
                                    then d\<lparr>password := Some (hash_of env0 ''new'')\<rparr> else d)
                        (auths world0)\<rparr>,
         Json OK True ''Passowrd changed successfully'' Empty)"
    using changePassword_wrong_old_password [where e = env0 and authId = 1 and w = world0
        and auth = alice and pw = "Some ''pw''" and n = "''new''" and cpw = "Some ''other''"]
      found cmp(2,3)
    by simp
  show ?thesis
    unfolding wrong right by (simp add: store0)
qed

subsection \<open>resetPassword\<close>

text \<open>
  C8, as stated, fails: with mismatched fields and no Auth for the identity the request
  ends \<open>NOT_FOUND\<close>, not \<open>BAD_REQUEST\<close>; and two absent fields agree, but nothing
  is rehashed, since bcrypt rejects the missing password.
\<close>

theorem resetPassword_claim_counterexample:
  "Some ''a'' \<noteq> Some ''b''
   \<and> resetPassword env0 ''ghost@x.com'' (Some ''a'') (Some ''b'') world0 =
       (world0, Next (HttpError NOT_FOUND ''User Not Found''))
   \<and> HttpError NOT_FOUND ''User Not Found'' \<noteq> HttpError BAD_REQUEST ''Passwords don't match''
   \<and> resetPassword env0 ''alice@x.com'' None None world0 = (world0, Rejected (Thrown BcryptHash))"
  by (simp add: resetPassword_def Auth_findOne_def bcrypt_hash_def store0)

text \<open>
  C8, amended. The lookup of the identity's Auth comes first: without an Auth the request
  ends \<open>NOT_FOUND\<close>, whatever the fields. With an Auth, fields that disagree end
  \<open>BAD_REQUEST\<close> and leave the world unchanged; a supplied password equal to its
  confirmation is hashed and stored on that Auth, and the answer is \<open>OK\<close>.
\<close>

theorem resetPassword_checks:
  "(Auth_findOne e (\<lambda>d. email d = Some uemail) w = Inr None \<longrightarrow>
      resetPassword e uemail pw cpw w = (w, Next (HttpError NOT_FOUND ''User Not Found'')))
   \<and> (Auth_findOne e (\<lambda>d. email d = Some uemail) w = Inr (Some auth) \<and> pw \<noteq> cpw \<longrightarrow>
      resetPassword e uemail pw cpw w = (w, Next (HttpError BAD_REQUEST ''Passwords don't match'')))
   \<and> (Auth_findOne e (\<lambda>d. email d = Some uemail) w = Inr (Some auth) \<and> \<not> fault e AuthSave \<longrightarrow>
      resetPassword e uemail (Some p) (Some p) w =
        (w\<lparr>auths := map (\<lambda>d. if auth_id d = auth_id auth then d\<lparr>password := Some (hash_of e p)\<rparr> else d)
                        (auths w)\<rparr>,
         Json OK True ''Password reset successful'' Empty))"
  by (simp add: resetPassword_def bcrypt_hash_def Auth_save_def)

text \<open>The statement above, run on the small store.\<close>

theorem resetPassword_checks_witness:
  "resetPassword env0 ''ghost@x.com'' (Some ''a'') (Some ''a'') world0 =
     (world0, Next (HttpError NOT_FOUND ''User Not Found''))
   \<and> resetPassword env0 ''alice@x.com'' (Some ''a'') (Some ''b'') world0 =
     (world0, Next (HttpError BAD_REQUEST ''Passwords don't match''))
   \<and> snd (resetPassword env0 ''alice@x.com'' (Some ''new'') (Some ''new'') world0) =
       Json OK True ''Password reset successful'' Empty
   \<and> map password (auths (fst (resetPassword env0 ''alice@x.com'' (Some ''new'') (Some ''new'') world0))) =
       [Some ''hash:new'', Some ''hash:pw'', Some ''hash:pw'', Some ''hash:pw'', None]"
proof -
  have ghost: "Auth_findOne env0 (\<lambda>d. email d = Some ''ghost@x.com'') world0 = Inr None"
    and found: "Auth_findOne env0 (\<lambda>d. email d = Some ''alice@x.com'') world0 = Inr (Some alice)"
    and save: "\<not> fault env0 AuthSave"
    by (simp_all add: Auth_findOne_def store0)
  have a: "resetPassword env0 ''ghost@x.com'' (Some ''a'') (Some ''a'') world0 =
     (world0, Next (HttpError NOT_FOUND ''User Not Found''))"
    using resetPassword_checks [where e = env0 and uemail = "''ghost@x.com''" and w = world0
        and pw = "Some ''a''" and cpw = "Some ''a''"] ghost
    by simp
  have b: "resetPassword env0 ''alice@x.com'' (Some ''a'') (Some ''b'') world0 =
     (world0, Next (HttpError BAD_REQUEST ''Passwords don't match''))"
    using resetPassword_checks [where e = env0 and uemail = "''alice@x.com''" and w = world0
        and auth = alice and pw = "Some ''a''" and cpw = "Some ''b''"] found
    by simp
  have c: "resetPassword env0 ''alice@x.com'' (Some ''new'') (Some ''new'') world0 =
        (world0\<lparr>auths := map (\<lambda>d. if auth_id d = auth_id alice
                                    then d\<lparr>password := Some (hash_of env0 ''new'')\<rparr> else d)
                        (auths world0)\<rparr>,
         Json OK True ''Password reset successful'' Empty)"
    using resetPassword_checks [where e = env0 and uemail = "''alice@x.com''" and w = world0
        and auth = alice and p = "''new''"] found save
    by simp
  show ?thesis
    by (simp add: a b c) (simp add: store0)
qed

subsection \<open>register: the retry path\<close>

text \<open>
  C9. On the retry path of registration (the lookup finds an unverified Auth) every stored
  Auth keeps its id, email, password hash, Google id, flags and recovery code, the number
  of Auth documents does not change, and the users are untouched, whatever password the
  retry supplies and whatever fails. When nothing fails, only the verification code and its
  expiry (30 minutes ahead) of that account are replaced, and the answer is \<open>CONFLICT\<close>.
\<close>

theorem register_retry_frame:
  assumes "Auth_findOne e (\<lambda>d. email d = em) w = Inr (Some auth)" and "\<not> isVerified auth"
  shows "map (\<lambda>d. (auth_id d, email d, password d, googleId d, isVerified d, isBlocked d,
                    recoveryOTP d, recoveryOTPExpiredAt d))
             (auths (fst (register e nm em ph pw cpw w)))
           = map (\<lambda>d. (auth_id d, email d, password d, googleId d, isVerified d, isBlocked d,
                        recoveryOTP d, recoveryOTPExpiredAt d)) (auths w)
       \<and> users (fst (register e nm em ph pw cpw w)) = users w
       \<and> (\<not> fault e AuthSave \<and> \<not> fault e SendEmail \<longrightarrow>
            register e nm em ph (Some p) cpw w =
              (w\<lparr>auths := map (\<lambda>d. if auth_id d = auth_id auth
                                    then d\<lparr>verificationOTP := Some (generateOTP e),
                                           verificationOTPExpiredAt := Some (now e + 1800000)\<rparr>
                                    else d) (auths w),
                  outbox := outbox w @ [Email em (generateOTP e)]\<rparr>,
               Json CONFLICT False ''Your account already exists. Please verify now.''
                 (Verification False (Some (generateOTP e)))))"
proof -
  let ?f = "\<lambda>d. if auth_id d = auth_id auth
                 then d\<lparr>verificationOTP := Some (generateOTP e),
                        verificationOTPExpiredAt := Some (now e + 1800000)\<rparr>
                 else d"
  have cases: "fst (register e nm em ph pw cpw w) = w
       \<or> fst (register e nm em ph pw cpw w) = w\<lparr>auths := map ?f (auths w)\<rparr>
       \<or> fst (register e nm em ph pw cpw w) =
           w\<lparr>auths := map ?f (auths w), outbox := outbox w @ [Email em (generateOTP e)]\<rparr>"
    using assms
    by (simp add: register_def Auth_save_def sendEmail_def Let_def split: sum.splits)
  have frame: "map (\<lambda>d. (auth_id d, email d, password d, googleId d, isVerified d, isBlocked d,
                    recoveryOTP d, recoveryOTPExpiredAt d)) (map ?f (auths w))
           = map (\<lambda>d. (auth_id d, email d, password d, googleId d, isVerified d, isBlocked d,
                        recoveryOTP d, recoveryOTPExpiredAt d)) (auths w)"
    by (induction "auths w") simp_all
  have ok: "\<not> fault e AuthSave \<and> \<not> fault e SendEmail \<longrightarrow>
            register e nm em ph (Some p) cpw w =
              (w\<lparr>auths := map ?f (auths w), outbox := outbox w @ [Email em (generateOTP e)]\<rparr>,
               Json CONFLICT False ''Your account already exists. Please verify now.''
                 (Verification False (Some (generateOTP e))))"
    using assms
    by (simp add: register_def bcrypt_hash_def Auth_save_def sendEmail_def Let_def)
  from cases frame have "map (\<lambda>d. (auth_id d, email d, password d, googleId d, isVerified d, isBlocked d,
                    recoveryOTP d, recoveryOTPExpiredAt d))
             (auths (fst (register e nm em ph pw cpw w)))
           = map (\<lambda>d. (auth_id d, email d, password d, googleId d, isVerified d, isBlocked d,
                        recoveryOTP d, recoveryOTPExpiredAt d)) (auths w)"
    by (elim disjE) simp_all
  moreover from cases have "users (fst (register e nm em ph pw cpw w)) = users w"
    by (elim disjE) simp_all
  ultimately show ?thesis using ok by simp
qed

text \<open>The statement above, run on the small store.\<close>

theorem register_retry_frame_witness:
  "snd (register env0 None (Some ''bob@x.com'') None (Some ''another'') None world0) =
     Json CONFLICT False ''Your account already exists. Please verify now.''
       (Verification False (Some ''482913''))
   \<and> map password (auths (fst (register env0 None (Some ''bob@x.com'') None (Some ''another'') None world0))) =
       map password (auths world0)
   \<and> map auth_id (auths (fst (register env0 None (Some ''bob@x.com'') None (Some ''another'') None world0))) =
       [1, 2, 3, 4, 5]
   \<and> users (fst (register env0 None (Some ''bob@x.com'') None (Some ''another'') None world0)) =
       users world0
   \<and> map verificationOTP (auths (fst (register env0 None (Some ''bob@x.com'') None (Some ''another'') None world0))) =
       [Some [], Some ''482913'', Some [], Some ''222222'', None]
   \<and> map verificationOTPExpiredAt
         (auths (fst (register env0 None (Some ''bob@x.com'') None (Some ''another'') None world0))) =
       [None, Some 2800000, None, Some 500000, None]"
proof -
  have found: "Auth_findOne env0 (\<lambda>d. email d = Some ''bob@x.com'') world0 = Inr (Some bob)"
    and unverified: "\<not> isVerified bob"
    and faults: "\<not> fault env0 AuthSave" "\<not> fault env0 SendEmail"
    by (simp_all add: Auth_findOne_def store0)
  have r: "register env0 None (Some ''bob@x.com'') None (Some ''another'') None world0 =
              (world0\<lparr>auths := map (\<lambda>d. if auth_id d = auth_id bob
                                    then d\<lparr>verificationOTP := Some (generateOTP env0),
                                           verificationOTPExpiredAt := Some (now env0 + 1800000)\<rparr>
                                    else d) (auths world0),
                  outbox := outbox world0 @ [Email (Some ''bob@x.com'') (generateOTP env0)]\<rparr>,
               Json CONFLICT False ''Your account already exists. Please verify now.''
                 (Verification False (Some (generateOTP env0))))"
    using register_retry_frame [OF found unverified, where p = "''another''" and nm = None
        and ph = None and cpw = None] faults
    by simp
  show ?thesis
    by (simp add: r) (simp add: store0)
qed

subsection \<open>login on a federated identity\<close>

text \<open>
  C10. Login on an Auth without a password ends with \<^verbatim>\<open>next\<close> of the error
  bcrypt throws, which has no status: neither \<open>NOT_FOUND\<close> nor \<open>UNAUTHORIZED\<close>,
  and an internal server error once the error middleware answers. The Auth that sign-in
  with Google creates is such an Auth: a login with its email right after ends this way.
\<close>

theorem login_federated_identity:
  "(Auth_findOne e (\<lambda>d. email d = em) w = Inr (Some auth) \<and> password auth = None \<longrightarrow>
      login e em pw w = (w, Next (Thrown BcryptCompare)))
   \<and> (find (\<lambda>d. googleId d = gid) (auths w) = None \<and> find (\<lambda>d. email d = em) (auths w) = None
        \<and> \<not> fault e AuthFindOne \<and> \<not> fault e AuthCreate \<and> \<not> fault e' AuthFindOne \<longrightarrow>
      login e' em pw (fst (signInWithGoogle e gid nm em av w)) =
        (fst (signInWithGoogle e gid nm em av w), Next (Thrown BcryptCompare)))
   \<and> errorStatus (Thrown BcryptCompare) = INTERNAL_SERVER_ERROR"
proof -
  have direct: "login e em pw w = (w, Next (Thrown BcryptCompare))"
    if "Auth_findOne e (\<lambda>d. email d = em) w = Inr (Some auth)" and "password auth = None"
    for e em w auth
    using that by (simp add: login_def bcrypt_compare_def split: option.splits)
  have chain: "login e' em pw (fst (signInWithGoogle e gid nm em av w)) =
        (fst (signInWithGoogle e gid nm em av w), Next (Thrown BcryptCompare))"
    if none: "find (\<lambda>d. googleId d = gid) (auths w) = None"
      and fresh: "find (\<lambda>d. email d = em) (auths w) = None"
      and f: "\<not> fault e AuthFindOne" "\<not> fault e AuthCreate" "\<not> fault e' AuthFindOne"
  proof -
    let ?a = "\<lparr>auth_id = fresh_auth_id e, email = em, password = None, googleId = gid,
              isVerified = default_isVerified e, isBlocked = default_isBlocked e,
              verificationOTP = None, verificationOTPExpiredAt = None,
              recoveryOTP = None, recoveryOTPExpiredAt = None\<rparr>"
    have "auths (fst (signInWithGoogle e gid nm em av w)) = auths w @ [?a]"
      using none f(1,2)
      by (simp add: signInWithGoogle_def Auth_findOne_def Auth_create_def User_create_def
            User_findOne_def Let_def split: sum.splits)
    then have "Auth_findOne e' (\<lambda>d. email d = em) (fst (signInWithGoogle e gid nm em av w)) = Inr (Some ?a)"
      using fresh f(3) by (simp add: Auth_findOne_def find_append_first)
    then show ?thesis
      by (rule direct) simp
  qed
  show ?thesis
    using direct [of e em w auth] chain by simp
qed

text \<open>The statement above, run on the small store.\<close>

theorem login_federated_identity_witness:
  "login env0 (Some ''erin@x.com'') (Some ''pw'') world0 = (world0, Next (Thrown BcryptCompare))
   \<and> snd (login env0 (Some ''gina@x.com'') (Some ''pw'')
             (fst (signInWithGoogle env0 (Some ''g-gina'') None (Some ''gina@x.com'') None world0))) =
       Next (Thrown BcryptCompare)
   \<and> errorStatus (Thrown BcryptCompare) = INTERNAL_SERVER_ERROR"
proof -
  have found: "Auth_findOne env0 (\<lambda>d. email d = Some ''erin@x.com'') world0 = Inr (Some erin)"
    "password erin = None"
    by (simp_all add: Auth_findOne_def store0)
  have new: "find (\<lambda>d. googleId d = Some ''g-gina'') (auths world0) = None"
    "find (\<lambda>d. email d = Some ''gina@x.com'') (auths world0) = None"
    "\<not> fault env0 c" for c
    by (simp_all add: store0)
  have a: "login env0 (Some ''erin@x.com'') (Some ''pw'') world0 = (world0, Next (Thrown BcryptCompare))"
    using login_federated_identity [where e = env0 and em = "Some ''erin@x.com''" and w = world0
        and auth = erin and pw = "Some ''pw''"] found
    by simp
  have b: "login env0 (Some ''gina@x.com'') (Some ''pw'')
             (fst (signInWithGoogle env0 (Some ''g-gina'') None (Some ''gina@x.com'') None world0)) =
       (fst (signInWithGoogle env0 (Some ''g-gina'') None (Some ''gina@x.com'') None world0),
        Next (Thrown BcryptCompare))"
    using login_federated_identity [where e = env0 and e' = env0 and em = "Some ''gina@x.com''"
        and w = world0 and gid = "Some ''g-gina''" and pw = "Some ''pw''" and nm = None and av = None]
      new
    by simp
  show ?thesis
    by (simp add: a b)
qed

end
